theory Spec2Isabelle
  imports Complex_Main
begin

section \<open>Basic types\<close>

text \<open>
  Go's \<^verbatim>\<open>int\<close>, \<^verbatim>\<open>int64\<close> and \<^verbatim>\<open>time.Duration\<close> are modelled as unbounded
  integers: none of the properties below depends on 64-bit wrap-around. A \<^verbatim>\<open>time.Time\<close>
  is the number of nanoseconds since the epoch, a \<^verbatim>\<open>time.Duration\<close> a number of
  nanoseconds. A Go \<^verbatim>\<open>error\<close> is an opaque value; \<open>None :: error option\<close> is
  \<^verbatim>\<open>nil\<close>.
\<close>

type_synonym Time = int
type_synonym Duration = int

datatype error = Errno string

datatype any = AnyNil | AnyString string | AnyInt int | AnyBool bool

section \<open>logger.go: levels\<close>

text \<open>\<^verbatim>\<open>type Level int\<close> with its \<^verbatim>\<open>iota\<close> constants.\<close>

type_synonym Level = int

definition TRACE :: Level where "TRACE = 0"
definition DEBUG :: Level where "DEBUG = 1"
definition INFO :: Level where "INFO = 2"
definition WARN :: Level where "WARN = 3"
definition ERROR :: Level where "ERROR = 4"
definition FATAL :: Level where "FATAL = 5"
definition OFF :: Level where "OFF = 6"

lemmas Level_defs = TRACE_def DEBUG_def INFO_def WARN_def ERROR_def FATAL_def OFF_def

text \<open>The map literal \<^verbatim>\<open>levelValues\<close>; its keys are pairwise distinct.\<close>

definition levelValues :: "string \<rightharpoonup> Level" where
  "levelValues = map_of
     [(''TRACE'', TRACE), (''DEBUG'', DEBUG), (''INFO'', INFO), (''WARN'', WARN),
      (''ERROR'', ERROR), (''FATAL'', FATAL), (''OFF'', OFF),
      (''trace'', TRACE), (''debug'', DEBUG), (''info'', INFO), (''warn'', WARN),
      (''error'', ERROR), (''fatal'', FATAL)]"

definition ParseLevel :: "string \<Rightarrow> Level" where
  "ParseLevel s = (case levelValues s of Some level \<Rightarrow> level | None \<Rightarrow> INFO)"

section \<open>logger.go: entries\<close>

record CallerInfo =
  File :: string
  Line :: int
  Function :: string

record Entry =
  Time :: Time
  Level :: Level
  Message :: string
  Logger :: string
  Marker :: string
  Context :: "string \<rightharpoonup> any"
  Caller :: CallerInfo
  Error :: "error option"
  Fields :: "string \<rightharpoonup> any"

text \<open>The zero values \<^verbatim>\<open>CallerInfo{}\<close> and \<^verbatim>\<open>Entry{}\<close>.\<close>

definition CallerInfo_zero :: CallerInfo where
  "CallerInfo_zero = \<lparr>File = [], Line = 0, Function = []\<rparr>"

definition Entry_zero :: Entry where
  "Entry_zero = \<lparr>Time = 0, Level = 0, Message = [], Logger = [], Marker = [],
     Context = Map.empty, Caller = CallerInfo_zero, Error = None, Fields = Map.empty\<rparr>"

section \<open>filter.go\<close>

text \<open>\<^verbatim>\<open>type FilterResult int\<close> and \<^verbatim>\<open>type CompositeMode int\<close> with their constants.\<close>

type_synonym FilterResult = int

definition ACCEPT :: FilterResult where "ACCEPT = 0"
definition DENY :: FilterResult where "DENY = 1"
definition NEUTRAL :: FilterResult where "NEUTRAL = 2"

lemmas FilterResult_defs = ACCEPT_def DENY_def NEUTRAL_def

type_synonym CompositeMode = int

definition ALL_mode :: CompositeMode where "ALL_mode = 0"
definition ANY_mode :: CompositeMode where "ANY_mode = 1"

subsection \<open>Leaf filters\<close>

record LevelFilter =
  minLevel :: Level
  maxLevel :: Level
  lf_onMatch :: FilterResult
  lf_onMismatch :: FilterResult

definition NewLevelFilter :: "Level \<Rightarrow> LevelFilter" where
  "NewLevelFilter minLvl =
     \<lparr>minLevel = minLvl, maxLevel = OFF, lf_onMatch = ACCEPT, lf_onMismatch = DENY\<rparr>"

definition LevelFilter_Decide :: "LevelFilter \<Rightarrow> Entry \<Rightarrow> FilterResult" where
  "LevelFilter_Decide f entry =
     (if Level entry \<ge> minLevel f \<and> (maxLevel f = OFF \<or> Level entry \<le> maxLevel f)
      then lf_onMatch f else lf_onMismatch f)"

text \<open>
  A compiled \<^verbatim>\<open>*regexp.Regexp\<close> is represented by its \<^verbatim>\<open>MatchString\<close> function.
\<close>

record RegexFilter =
  pattern :: "string \<Rightarrow> bool"
  rf_onMatch :: FilterResult
  rf_onMismatch :: FilterResult

definition RegexFilter_Decide :: "RegexFilter \<Rightarrow> Entry \<Rightarrow> FilterResult" where
  "RegexFilter_Decide f entry =
     (if pattern f (Message entry) then rf_onMatch f else rf_onMismatch f)"

text \<open>
  \<^verbatim>\<open>strings.EqualFold\<close> on ASCII text: equality after mapping \<^verbatim>\<open>A..Z\<close> to
  \<^verbatim>\<open>a..z\<close>. (The folding of characters outside ASCII is not modelled.)
\<close>

definition toLowerASCII :: "char \<Rightarrow> char" where
  "toLowerASCII c =
     (let n = (of_char c :: nat) in if 65 \<le> n \<and> n \<le> 90 then char_of (n + 32) else c)"

definition EqualFold :: "string \<Rightarrow> string \<Rightarrow> bool" where
  "EqualFold s t = (map toLowerASCII s = map toLowerASCII t)"

record MarkerFilter =
  marker :: string
  mf_onMatch :: FilterResult
  mf_onMismatch :: FilterResult

definition NewMarkerFilter :: "string \<Rightarrow> MarkerFilter" where
  "NewMarkerFilter m = \<lparr>marker = m, mf_onMatch = ACCEPT, mf_onMismatch = NEUTRAL\<rparr>"

definition MarkerFilter_Decide :: "MarkerFilter \<Rightarrow> Entry \<Rightarrow> FilterResult" where
  "MarkerFilter_Decide f entry =
     (if EqualFold (Marker entry) (marker f) then mf_onMatch f else mf_onMismatch f)"

subsection \<open>The burst filter\<close>

text \<open>
  The \<^verbatim>\<open>float64\<close> fields \<^verbatim>\<open>rate\<close> and \<^verbatim>\<open>tokens\<close> are modelled as real numbers:
  rounding, infinities and NaN are outside the model. The mutex only serialises
  calls of \<^verbatim>\<open>Decide\<close>; a call is one atomic step of the model. The reading of
  \<^verbatim>\<open>time.Now()\<close> is the parameter \<open>now\<close>.
\<close>

record BurstFilter =
  level :: Level
  rate :: real
  maxBurst :: int
  onMatch :: FilterResult
  onMismatch :: FilterResult
  tokens :: real
  lastRefill :: Time

definition NewBurstFilter :: "Level \<Rightarrow> real \<Rightarrow> int \<Rightarrow> Time \<Rightarrow> BurstFilter" where
  "NewBurstFilter lvl r mb now =
     \<lparr>level = lvl, rate = r, maxBurst = mb, onMatch = ACCEPT, onMismatch = DENY,
      tokens = real_of_int mb, lastRefill = now\<rparr>"

text \<open>\<^verbatim>\<open>Duration.Seconds()\<close>: the duration in seconds, as a floating-point number.\<close>

definition Duration_Seconds :: "Duration \<Rightarrow> real" where
  "Duration_Seconds d = real_of_int d / 1000000000"

definition BurstFilter_Decide ::
    "BurstFilter \<Rightarrow> Entry \<Rightarrow> Time \<Rightarrow> FilterResult \<times> BurstFilter" where
  "BurstFilter_Decide f entry now =
     (if Level entry < level f then (NEUTRAL, f)
      else
        let elapsed = Duration_Seconds (now - lastRefill f);
            f1 = f\<lparr>tokens := tokens f + elapsed * rate f\<rparr>;
            f2 = (if tokens f1 > real_of_int (maxBurst f1)
                  then f1\<lparr>tokens := real_of_int (maxBurst f1)\<rparr> else f1);
            f3 = f2\<lparr>lastRefill := now\<rparr>
        in if tokens f3 \<ge> 1 then (onMatch f3, f3\<lparr>tokens := tokens f3 - 1\<rparr>)
           else (onMismatch f3, f3))"

text \<open>The token-bucket invariant of the burst filter, observed between calls.\<close>

definition tokens_in_range :: "BurstFilter \<Rightarrow> bool" where
  "tokens_in_range f \<longleftrightarrow> 0 \<le> tokens f \<and> tokens f \<le> real_of_int (maxBurst f)"

subsection \<open>The filter interface and the composite filter\<close>

text \<open>
  The implementations of the interface \<^verbatim>\<open>Filter\<close> form a datatype. \<^verbatim>\<open>Decide\<close>
  returns the decision and the filter after the call, since a burst filter below a
  composite changes state. A composite owns its children: one filter object does
  not stand at two places. One call of \<^verbatim>\<open>Decide\<close> sees one clock reading \<open>now\<close>.
  The two loops of \<^verbatim>\<open>CompositeFilter.Decide\<close> are \<open>Decide_ALL\<close> and \<open>Decide_ANY\<close>;
  a child that the loop does not reach is not called and keeps its state.
\<close>

datatype Filter =
    FLevel LevelFilter
  | FRegex RegexFilter
  | FMarker MarkerFilter
  | FComposite (filters: "Filter list") (mode: CompositeMode)
  | FDenyAll
  | FAcceptAll
  | FBurst BurstFilter

fun Decide :: "Filter \<Rightarrow> Entry \<Rightarrow> Time \<Rightarrow> FilterResult \<times> Filter"
  and Decide_ALL :: "Filter list \<Rightarrow> Entry \<Rightarrow> Time \<Rightarrow> FilterResult \<times> Filter list"
  and Decide_ANY :: "Filter list \<Rightarrow> Entry \<Rightarrow> Time \<Rightarrow> FilterResult \<times> Filter list"
where
  "Decide (FLevel f) entry now = (LevelFilter_Decide f entry, FLevel f)"
| "Decide (FRegex f) entry now = (RegexFilter_Decide f entry, FRegex f)"
| "Decide (FMarker f) entry now = (MarkerFilter_Decide f entry, FMarker f)"
| "Decide FDenyAll entry now = (DENY, FDenyAll)"
| "Decide FAcceptAll entry now = (ACCEPT, FAcceptAll)"
| "Decide (FBurst f) entry now =
     (case BurstFilter_Decide f entry now of (result, f') \<Rightarrow> (result, FBurst f'))"
| "Decide (FComposite fs m) entry now =
     (if length fs = 0 then (NEUTRAL, FComposite fs m)
      else if m = ALL_mode then
        (case Decide_ALL fs entry now of (result, fs') \<Rightarrow> (result, FComposite fs' m))
      else if m = ANY_mode then
        (case Decide_ANY fs entry now of (result, fs') \<Rightarrow> (result, FComposite fs' m))
      else (NEUTRAL, FComposite fs m))"
| "Decide_ALL [] entry now = (ACCEPT, [])"
| "Decide_ALL (f # fs) entry now =
     (case Decide f entry now of (result, f') \<Rightarrow>
        if result = DENY then (DENY, f' # fs)
        else (case Decide_ALL fs entry now of (r, fs') \<Rightarrow> (r, f' # fs')))"
| "Decide_ANY [] entry now = (DENY, [])"
| "Decide_ANY (f # fs) entry now =
     (case Decide f entry now of (result, f') \<Rightarrow>
        if result = ACCEPT then (ACCEPT, f' # fs)
        else (case Decide_ANY fs entry now of (r, fs') \<Rightarrow> (r, f' # fs')))"

definition NewCompositeFilter :: "CompositeMode \<Rightarrow> Filter list \<Rightarrow> Filter" where
  "NewCompositeFilter m fs = FComposite fs m"

section \<open>The appender interface\<close>

text \<open>
  The interface \<^verbatim>\<open>Appender\<close> (\<^verbatim>\<open>Name\<close>, \<^verbatim>\<open>Append\<close>, \<^verbatim>\<open>Close\<close>). An appender is
  a pointer to a mutable object: the model represents it by its methods, which act on
  a store \<open>'w\<close> that holds the state behind the pointer.
\<close>

record 'w Appender =
  Name :: string
  Append :: "Entry \<Rightarrow> 'w \<Rightarrow> error option \<times> 'w"
  Close :: "'w \<Rightarrow> error option \<times> 'w"

section \<open>logger.go: the logger\<close>

record MDC =
  data :: "string \<rightharpoonup> any"

definition NewMDC :: MDC where
  "NewMDC = \<lparr>data = Map.empty\<rparr>"

text \<open>\<^verbatim>\<open>Clone\<close> copies the map key by key: the copy is the same finite map.\<close>

definition MDC_Clone :: "MDC \<Rightarrow> (string \<rightharpoonup> any)" where
  "MDC_Clone m = data m"

record 'w Logger =
  name :: string
  level :: Level
  includeLocation :: bool
  appenders :: "'w Appender list"
  mdc :: MDC

definition NewLogger :: "string \<Rightarrow> 'w Logger" where
  "NewLogger n =
     \<lparr>name = n, level = INFO, includeLocation = False, appenders = [], mdc = NewMDC\<rparr>"

definition SetLevel :: "'w Logger \<Rightarrow> Level \<Rightarrow> 'w Logger" where
  "SetLevel l lvl = l\<lparr>level := lvl\<rparr>"

definition AddAppender :: "'w Logger \<Rightarrow> 'w Appender \<Rightarrow> 'w Logger" where
  "AddAppender l appender = l\<lparr>appenders := appenders l @ [appender]\<rparr>"

definition GetLevel :: "'w Logger \<Rightarrow> Level" where
  "GetLevel l = level l"

definition IsEnabled :: "'w Logger \<Rightarrow> Level \<Rightarrow> bool" where
  "IsEnabled l lvl \<longleftrightarrow> lvl \<ge> GetLevel l"

text \<open>
  What a call of \<^verbatim>\<open>Logger.log\<close> does is recorded step by step: the clone of the
  MDC, the construction of the entry, and each call of an appender's \<^verbatim>\<open>Append\<close>
  (by the appender's position in the list).
\<close>

datatype log_step = MDC_Cloned | Entry_Built Entry | Append_Called nat Entry

text \<open>
  The loop \<^verbatim>\<open>for _, appender := range appenders\<close>, from position \<open>i\<close> on. The
  error of \<^verbatim>\<open>Append\<close> is discarded.
\<close>

fun log_fanout ::
    "nat \<Rightarrow> 'w Appender list \<Rightarrow> Entry \<Rightarrow> 'w \<Rightarrow> log_step list \<times> 'w" where
  "log_fanout i [] entry w = ([], w)"
| "log_fanout i (appender # rest) entry w =
     (case Append appender entry w of (_, w') \<Rightarrow>
        (case log_fanout (Suc i) rest entry w' of (steps, w'') \<Rightarrow>
           (Append_Called i entry # steps, w'')))"

text \<open>
  \<^verbatim>\<open>Logger.log\<close>. The parameter \<open>message\<close> is the value of
  \<^verbatim>\<open>fmt.Sprintf(format, args...)\<close>, \<open>callsite\<close> what \<^verbatim>\<open>getCaller(4)\<close> returns and
  \<open>now\<close> the reading of \<^verbatim>\<open>time.Now()\<close>. The result is the list of steps taken and
  the store after them.
\<close>

definition log ::
    "'w Logger \<Rightarrow> Level \<Rightarrow> string \<Rightarrow> string \<Rightarrow> CallerInfo \<Rightarrow> Time \<Rightarrow> 'w
       \<Rightarrow> log_step list \<times> 'w" where
  "log l lvl mark message callsite now w =
     (if \<not> IsEnabled l lvl then ([], w)
      else
        let caller = (if includeLocation l then callsite else CallerInfo_zero);
            entry = \<lparr>Time = now, Level = lvl, Message = message, Logger = name l,
                     Marker = mark, Context = MDC_Clone (mdc l), Caller = caller,
                     Error = None, Fields = Map.empty\<rparr>
        in case log_fanout 0 (appenders l) entry w of
             (steps, w') \<Rightarrow> (MDC_Cloned # Entry_Built entry # steps, w'))"

section \<open>The asynchronous appender\<close>

text \<open>
  The channel \<^verbatim>\<open>msgChan\<close> is the list of entries sent and not yet received, oldest
  first, with a flag for \<^verbatim>\<open>close(msgChan)\<close>. \<^verbatim>\<open>sync.Once\<close> is its done flag:
  \<^verbatim>\<open>once.Do\<close> holds the mutex of the \<^verbatim>\<open>Once\<close> while the function runs, so calls of
  \<^verbatim>\<open>Close\<close> do not overlap and each is one step of the model. The worker goroutine
  is represented where \<^verbatim>\<open>Close\<close> waits for it: \<^verbatim>\<open>wg.Wait()\<close> returns after the
  worker has received every entry still in the closed channel and passed it to the
  delegate. The field \<open>calls\<close> is a history variable: the calls made to the delegate
  so far.
\<close>

datatype delegate_call = Delegate_Append Entry | Delegate_Close

datatype panic = Panic string

record 'w AsyncAppender =
  delegate :: "'w Appender"
  msgChan :: "Entry list"
  bufferSize :: int
  chanClosed :: bool
  onceDone :: bool
  calls :: "delegate_call list"

definition NewAsyncAppender :: "'w Appender \<Rightarrow> int \<Rightarrow> 'w AsyncAppender" where
  "NewAsyncAppender d bufSize =
     \<lparr>delegate = d, msgChan = [], bufferSize = (if bufSize \<le> 0 then 4096 else bufSize),
      chanClosed = False, onceDone = False, calls = []\<rparr>"

text \<open>
  The loop \<^verbatim>\<open>for entry := range a.msgChan\<close> of the worker over the entries left in
  the channel. An error of the delegate is printed and the loop goes on.
\<close>

fun worker :: "'w Appender \<Rightarrow> Entry list \<Rightarrow> 'w \<Rightarrow> delegate_call list \<times> 'w" where
  "worker d [] w = ([], w)"
| "worker d (entry # rest) w =
     (case Append d entry w of (_, w') \<Rightarrow>
        (case worker d rest w' of (cs, w'') \<Rightarrow> (Delegate_Append entry # cs, w'')))"

text \<open>
  \<^verbatim>\<open>AsyncAppender.Close\<close>. \<open>Inl\<close> is a panic (closing a closed channel), \<open>Inr\<close> the
  returned error with the appender and the delegate's store after the call.
\<close>

definition AsyncAppender_Close ::
    "'w AsyncAppender \<Rightarrow> 'w \<Rightarrow> panic + (error option \<times> 'w AsyncAppender \<times> 'w)" where
  "AsyncAppender_Close a w =
     (if onceDone a then Inr (None, a, w)
      else if chanClosed a then Inl (Panic ''close of closed channel'')
      else
        (case worker (delegate a) (msgChan a) w of (cs, w1) \<Rightarrow>
           (case Close (delegate a) w1 of (err, w2) \<Rightarrow>
              Inr (err,
                   a\<lparr>msgChan := [], chanClosed := True, onceDone := True,
                     calls := calls a @ cs @ [Delegate_Close]\<rparr>,
                   w2))))"

text \<open>A caller that calls \<^verbatim>\<open>Close\<close> \<open>n\<close> times in a row and collects the results.\<close>

fun Close_repeatedly ::
    "nat \<Rightarrow> 'w AsyncAppender \<Rightarrow> 'w
       \<Rightarrow> panic + (error option list \<times> 'w AsyncAppender \<times> 'w)" where
  "Close_repeatedly 0 a w = Inr ([], a, w)"
| "Close_repeatedly (Suc n) a w =
     (case AsyncAppender_Close a w of
        Inl p \<Rightarrow> Inl p
      | Inr (err, a', w') \<Rightarrow>
          (case Close_repeatedly n a' w' of
             Inl p \<Rightarrow> Inl p
           | Inr (errs, a'', w'') \<Rightarrow> Inr (err # errs, a'', w'')))"

section \<open>rolling.go: library functions\<close>

subsection \<open>Strings and paths\<close>

text \<open>
  \<^verbatim>\<open>strings.Fields\<close> splits around runs of white space. The model knows the ASCII
  white space characters (tab, line feed, vertical tab, form feed, carriage return,
  space); \<open>cur\<close> is the field being read.
\<close>

definition isSpace :: "char \<Rightarrow> bool" where
  "isSpace c \<longleftrightarrow> c \<in> set [CHR 0x09, CHR 0x0A, CHR 0x0B, CHR 0x0C, CHR 0x0D, CHR 0x20]"

fun fields_from :: "string \<Rightarrow> string \<Rightarrow> string list" where
  "fields_from cur [] = (if cur = [] then [] else [cur])"
| "fields_from cur (c # cs) =
     (if isSpace c then (if cur = [] then fields_from [] cs else cur # fields_from [] cs)
      else fields_from (cur @ [c]) cs)"

definition strings_Fields :: "string \<Rightarrow> string list" where
  "strings_Fields s = fields_from [] s"

definition isDigit :: "char \<Rightarrow> bool" where
  "isDigit c \<longleftrightarrow> c \<in> set ''0123456789''"

definition digit_value :: "char \<Rightarrow> int" where
  "digit_value c = int (of_char c) - 48"

definition decimal_value :: "string \<Rightarrow> int" where
  "decimal_value ds = foldl (\<lambda>n c. 10 * n + digit_value c) 0 ds"

text \<open>
  \<^verbatim>\<open>fmt.Sscanf(s, "%d", &h)\<close> on a string without white space: an optional sign,
  then the longest run of decimal digits, read by \<^verbatim>\<open>strconv.ParseInt\<close> into 64 bits.
  Text after the digits is left unread. The result is \<open>None\<close> when \<^verbatim>\<open>Sscanf\<close>
  returns an error (no digit, or a value outside \<^verbatim>\<open>int64\<close>) and stores nothing.
\<close>

definition Sscanf_d :: "string \<Rightarrow> int option" where
  "Sscanf_d s =
     (let signed = (s \<noteq> [] \<and> (hd s = CHR ''+'' \<or> hd s = CHR ''-''));
          body = (if signed then tl s else s);
          tok = takeWhile isDigit body
      in if tok = [] then None
         else
           let v = (if signed \<and> hd s = CHR ''-'' then - decimal_value tok
                    else decimal_value tok)
           in if v < - (2 ^ 63) \<or> 2 ^ 63 \<le> v then None else Some v)"

text \<open>\<^verbatim>\<open>%d\<close> of \<^verbatim>\<open>fmt.Sprintf\<close>: the decimal digits of an integer.\<close>

fun nat_digits :: "nat \<Rightarrow> string" where
  "nat_digits n =
     (if n < 10 then [''0123456789'' ! n]
      else nat_digits (n div 10) @ [''0123456789'' ! (n mod 10)])"

declare nat_digits.simps [simp del]

definition Sprintf_d :: "int \<Rightarrow> string" where
  "Sprintf_d i = (if i < 0 then CHR ''-'' # nat_digits (nat (- i)) else nat_digits (nat i))"

text \<open>
  \<^verbatim>\<open>filepath.Base\<close> and \<^verbatim>\<open>filepath.Ext\<close> with the separator \<^verbatim>\<open>/\<close>.
  \<^verbatim>\<open>filepath.Dir\<close> and \<^verbatim>\<open>filepath.Join\<close> end with \<^verbatim>\<open>filepath.Clean\<close>, of which the
  model has the removal of trailing separators only: it is exact on paths without
  \<^verbatim>\<open>.\<close> and \<^verbatim>\<open>..\<close> elements and without repeated separators.
\<close>

definition isPathSeparator :: "char \<Rightarrow> bool" where
  "isPathSeparator c \<longleftrightarrow> c = CHR ''/''"

definition filepath_Base :: "string \<Rightarrow> string" where
  "filepath_Base path =
     (if path = [] then ''.''
      else
        let stripped = rev (dropWhile isPathSeparator (rev path));
            element = rev (takeWhile (\<lambda>c. \<not> isPathSeparator c) (rev stripped))
        in if element = [] then ''/'' else element)"


definition filepath_Clean :: "string \<Rightarrow> string" where
  "filepath_Clean path =
     (if path = [] then ''.''
      else
        let stripped = rev (dropWhile isPathSeparator (rev path))
        in if stripped = [] then ''/'' else stripped)"

definition filepath_Dir :: "string \<Rightarrow> string" where
  "filepath_Dir path =
     filepath_Clean (rev (dropWhile (\<lambda>c. \<not> isPathSeparator c) (rev path)))"

definition filepath_Join :: "string \<Rightarrow> string \<Rightarrow> string" where
  "filepath_Join dir elem =
     (if dir = [] then filepath_Clean elem
      else if elem = [] then filepath_Clean dir
      else if dir = ''.'' then filepath_Clean elem
      else if isPathSeparator (last dir) then filepath_Clean (dir @ elem)
      else filepath_Clean (dir @ ''/'' @ elem))"

subsection \<open>The operating system\<close>

text \<open>
  The state of the file system is the content of the directory of the log file,
  \<^verbatim>\<open>filepath.Dir(filename)\<close>: one \<open>FileInfo\<close> for each entry. (\<^verbatim>\<open>os.ReadDir\<close>
  lists the entries sorted by name; the list is not kept sorted, and its order
  only decides between backups of equal modification time.) No other process
  changes the directory. A path given to a system call names the entry
  \<^verbatim>\<open>filepath.Base(path)\<close> of that directory. An open \<^verbatim>\<open>*os.File\<close> is the name of the
  entry it was opened on. Every system call can fail: \<open>fault\<close> says which calls the
  system refuses and with which error. \<open>clock\<close> is the reading of \<^verbatim>\<open>time.Now()\<close>,
  constant during one call of the appender. The functions of package \<^verbatim>\<open>time\<close> that
  depend on the local time zone are fields of the state: \<open>local_Format layout t\<close> is
  \<^verbatim>\<open>t.Format(layout)\<close>, \<open>local_Hour t\<close> is \<^verbatim>\<open>t.Hour()\<close>, and \<open>local_Date t h\<close> is
  \<^verbatim>\<open>time.Date(t.Year(), t.Month(), t.Day(), h, 0, 0, 0, t.Location())\<close>.
\<close>

record FileInfo =
  fi_name :: string
  fi_isDir :: bool
  fi_modTime :: Time
  fi_size :: int

datatype syscall =
    MkdirAll string
  | OpenFile string
  | FileClose string
  | FileStat string
  | FileWrite string
  | Rename string string
  | ReadDir string
  | DirEntryInfo string
  | Remove string

record OS =
  dirents :: "FileInfo list"
  clock :: Time
  fault :: "syscall \<Rightarrow> error option"
  local_Format :: "string \<Rightarrow> Time \<Rightarrow> string"
  local_Hour :: "Time \<Rightarrow> int"
  local_Date :: "Time \<Rightarrow> int \<Rightarrow> Time"






definition os_ReadDir :: "OS \<Rightarrow> string \<Rightarrow> error + FileInfo list" where
  "os_ReadDir os dir =
     (case fault os (ReadDir dir) of Some err \<Rightarrow> Inl err | None \<Rightarrow> Inr (dirents os))"

text \<open>\<^verbatim>\<open>os.Remove(path)\<close>; the callers discard its error.\<close>

definition os_Remove :: "OS \<Rightarrow> string \<Rightarrow> OS" where
  "os_Remove os path =
     (case fault os (Remove path) of
        Some err \<Rightarrow> os
      | None \<Rightarrow> os\<lparr>dirents := filter (\<lambda>x. fi_name x \<noteq> filepath_Base path) (dirents os)\<rparr>)"

text \<open>
  Two abbreviations for concrete systems: a regular file, and a system on which no
  call fails, with the clock in UTC. Its \<open>local_Format\<close> prints the count of
  nanoseconds in place of a calendar date.
\<close>

definition regular_file :: "string \<Rightarrow> Time \<Rightarrow> int \<Rightarrow> FileInfo" where
  "regular_file n t sz = \<lparr>fi_name = n, fi_isDir = False, fi_modTime = t, fi_size = sz\<rparr>"

definition reliable_os :: "FileInfo list \<Rightarrow> Time \<Rightarrow> OS" where
  "reliable_os entries now =
     \<lparr>dirents = entries, clock = now, fault = (\<lambda>call. None),
      local_Format = (\<lambda>layout t. Sprintf_d t),
      local_Hour = (\<lambda>t. (t div 3600000000000) mod 24),
      local_Date = (\<lambda>t h. (t div 86400000000000) * 86400000000000 + h * 3600000000000)\<rparr>"

section \<open>rolling.go: rolling policies\<close>

definition time_Hour :: Duration where
  "time_Hour = 3600000000000"

record SizeBasedPolicy =
  maxSize :: int


record TimeBasedPolicy =
  interval :: Duration
  tp_pattern :: string
  tp_lastRoll :: Time

definition NewTimeBasedPolicy :: "string \<Rightarrow> Time \<Rightarrow> TimeBasedPolicy" where
  "NewTimeBasedPolicy intervalName now =
     (if intervalName = ''hourly''
      then \<lparr>interval = time_Hour, tp_pattern = ''2006-01-02-15'', tp_lastRoll = now\<rparr>
      else if intervalName = ''daily''
      then \<lparr>interval = 24 * time_Hour, tp_pattern = ''2006-01-02'', tp_lastRoll = now\<rparr>
      else if intervalName = ''weekly''
      then \<lparr>interval = 7 * 24 * time_Hour, tp_pattern = ''2006-01-02'', tp_lastRoll = now\<rparr>
      else \<lparr>interval = 24 * time_Hour, tp_pattern = ''2006-01-02'', tp_lastRoll = now\<rparr>)"

record CronBasedPolicy =
  schedule :: string
  hour :: int
  cp_lastRoll :: Time

text \<open>
  \<^verbatim>\<open>parseCronHour\<close>: \<^verbatim>\<open>h\<close> is declared with the zero value, the result of
  \<^verbatim>\<open>Sscanf\<close> is not looked at, and \<^verbatim>\<open>h\<close> is returned.
\<close>

definition parseCronHour :: "string \<Rightarrow> int" where
  "parseCronHour sched =
     (let parts = strings_Fields sched
      in if length parts \<ge> 3
         then (case Sscanf_d (parts ! 2) of Some v \<Rightarrow> v | None \<Rightarrow> 0)
         else 4)"

definition NewCronBasedPolicy :: "string \<Rightarrow> Time \<Rightarrow> CronBasedPolicy" where
  "NewCronBasedPolicy sched now =
     \<lparr>schedule = sched, hour = parseCronHour sched, cp_lastRoll = now\<rparr>"

text \<open>
  The implementations of the interface \<^verbatim>\<open>RollingPolicy\<close> that have both of its
  methods. A method returns the policy after the call with its result: the cron
  policy's \<^verbatim>\<open>ShouldRoll\<close> and the time policy's \<^verbatim>\<open>GetNextFileName\<close> set
  \<^verbatim>\<open>lastRoll\<close>.
\<close>

datatype RollingPolicy =
    SizeBased SizeBasedPolicy
  | TimeBased TimeBasedPolicy
  | CronBased CronBasedPolicy




section \<open>rolling.go: the rolling file appender\<close>

text \<open>
  \<^verbatim>\<open>BaseAppender\<close> is embedded in \<^verbatim>\<open>RollingFileAppender\<close>: the record extends it.
  A \<^verbatim>\<open>Layout\<close> is its \<^verbatim>\<open>Format\<close> function; a \<^verbatim>\<open>nil\<close> filter is \<open>None\<close>. The
  mutex makes \<^verbatim>\<open>Append\<close> and \<^verbatim>\<open>Close\<close> atomic; it has no field in the model.
\<close>

record BaseAppender =
  name :: string
  layout :: "Entry \<Rightarrow> string"
  filter' :: "Filter option"


record RollingFileAppender = BaseAppender +
  filename :: string
  file' :: "string option"
  policies :: "RollingPolicy list"
  maxBackups :: int
  maxAge :: Duration
  totalMaxSize :: int
  currentIndex :: int

text \<open>\<open>textLayout\<close> stands for the layout that \<^verbatim>\<open>NewTextLayout()\<close> returns.\<close>

definition NewRollingFileAppender ::
    "(Entry \<Rightarrow> string) \<Rightarrow> string \<Rightarrow> RollingFileAppender" where
  "NewRollingFileAppender textLayout fname =
     \<lparr>name = ''RollingFile'', layout = textLayout, filter' = None,
      filename = fname, file' = None, policies = [], maxBackups = 7, maxAge = 0,
      totalMaxSize = 0, currentIndex = 0\<rparr>"


definition WithMaxBackups :: "RollingFileAppender \<Rightarrow> int \<Rightarrow> RollingFileAppender" where
  "WithMaxBackups r n = r\<lparr>maxBackups := n\<rparr>"

definition WithMaxAge :: "RollingFileAppender \<Rightarrow> Duration \<Rightarrow> RollingFileAppender" where
  "WithMaxAge r age = r\<lparr>maxAge := age\<rparr>"

definition WithTotalMaxSize :: "RollingFileAppender \<Rightarrow> int \<Rightarrow> RollingFileAppender" where
  "WithTotalMaxSize r maxBytes = r\<lparr>totalMaxSize := maxBytes\<rparr>"




subsection \<open>Cleanup\<close>

record backupFile =
  bk_name :: string
  bk_path :: string
  bk_modTime :: Time
  bk_size :: int

text \<open>
  The loop over the directory listing that finds the backups: a directory is
  skipped, and so is an entry whose \<^verbatim>\<open>Info()\<close> fails.
\<close>

fun find_backups :: "OS \<Rightarrow> string \<Rightarrow> string \<Rightarrow> FileInfo list \<Rightarrow> backupFile list" where
  "find_backups os dir base [] = []"
| "find_backups os dir base (f # files) =
     (if fi_isDir f then find_backups os dir base files
      else
        let n = fi_name f in
        if length n > length base \<and> take (length base) n = base
        then
          (case fault os (DirEntryInfo n) of
             Some err \<Rightarrow> find_backups os dir base files
           | None \<Rightarrow>
               \<lparr>bk_name = n, bk_path = filepath_Join dir n,
                bk_modTime = fi_modTime f, bk_size = fi_size f\<rparr>
               # find_backups os dir base files)
        else find_backups os dir base files)"

text \<open>
  \<^verbatim>\<open>sort.Slice\<close> by modification time, oldest first. \<^verbatim>\<open>sort.Slice\<close> does not
  say in which order it leaves files of equal modification time; the model keeps
  them in the order of the listing.
\<close>

definition sort_by_modTime :: "backupFile list \<Rightarrow> backupFile list" where
  "sort_by_modTime backups = sort_key bk_modTime backups"

text \<open>
  The three removal loops: by count, by age and by total size. Each returns the
  backups that are left and the system after its calls of \<^verbatim>\<open>os.Remove\<close>.
\<close>

fun remove_by_count :: "int \<Rightarrow> backupFile list \<Rightarrow> OS \<Rightarrow> backupFile list \<times> OS" where
  "remove_by_count maxB [] os = ([], os)"
| "remove_by_count maxB (b # backups) os =
     (if int (length (b # backups)) > maxB \<and> maxB > 0
      then remove_by_count maxB backups (os_Remove os (bk_path b))
      else (b # backups, os))"

fun remove_by_age :: "Time \<Rightarrow> backupFile list \<Rightarrow> OS \<Rightarrow> backupFile list \<times> OS" where
  "remove_by_age expirationTime [] os = ([], os)"
| "remove_by_age expirationTime (b # backups) os =
     (if bk_modTime b < expirationTime
      then remove_by_age expirationTime backups (os_Remove os (bk_path b))
      else
        (case remove_by_age expirationTime backups os of
           (validBackups, os') \<Rightarrow> (b # validBackups, os')))"

fun remove_by_size :: "int \<Rightarrow> int \<Rightarrow> backupFile list \<Rightarrow> OS \<Rightarrow> OS" where
  "remove_by_size limit totalSize [] os = os"
| "remove_by_size limit totalSize (b # backups) os =
     (if totalSize > limit
      then remove_by_size limit (totalSize - bk_size b) backups (os_Remove os (bk_path b))
      else os)"

definition cleanup :: "RollingFileAppender \<Rightarrow> OS \<Rightarrow> OS" where
  "cleanup r os =
     (if maxBackups r \<le> 0 \<and> totalMaxSize r \<le> 0 then os
      else
        let dir = filepath_Dir (filename r);
            base = filepath_Base (filename r)
        in
        (case os_ReadDir os dir of
           Inl err \<Rightarrow> os
         | Inr files \<Rightarrow>
             let backups = sort_by_modTime (find_backups os dir base files) in
             (case remove_by_count (maxBackups r) backups os of
                (backups1, os1) \<Rightarrow>
                  (case (if maxAge r > 0
                         then remove_by_age (clock os1 - maxAge r) backups1 os1
                         else (backups1, os1)) of
                     (backups2, os2) \<Rightarrow>
                       if totalMaxSize r > 0
                       then remove_by_size (totalMaxSize r) (sum_list (map bk_size backups2))
                              backups2 os2
                       else os2))))"

subsection \<open>Rollover and Append\<close>




definition RollingFile_Close ::
    "RollingFileAppender \<Rightarrow> OS \<Rightarrow> error option \<times> RollingFileAppender \<times> OS" where
  "RollingFile_Close r os =
     (case file' r of
        Some f \<Rightarrow> (fault os (FileClose f), r\<lparr>file' := None\<rparr>, os)
      | None \<Rightarrow> (None, r, os))"

section \<open>Properties of the levels and the filters\<close>

lemma FilterResult_distinct:
  "ACCEPT \<noteq> DENY" "ACCEPT \<noteq> NEUTRAL" "DENY \<noteq> NEUTRAL"
  "DENY \<noteq> ACCEPT" "NEUTRAL \<noteq> ACCEPT" "NEUTRAL \<noteq> DENY"
  by (simp_all add: FilterResult_defs)

lemma CompositeMode_distinct: "ALL_mode \<noteq> ANY_mode"
  by (simp add: ALL_mode_def ANY_mode_def)

text \<open>
  Claim C10. \<^verbatim>\<open>ParseLevel\<close> maps the upper-case names of the seven levels and the
  lower-case names of the six levels other than \<^verbatim>\<open>OFF\<close> to their levels, and every
  other string \<open>s\<close> to \<^verbatim>\<open>INFO\<close>; it has no error result.
\<close>

theorem ParseLevel_names:
  "ParseLevel ''TRACE'' = TRACE \<and> ParseLevel ''DEBUG'' = DEBUG \<and>
   ParseLevel ''INFO'' = INFO \<and> ParseLevel ''WARN'' = WARN \<and>
   ParseLevel ''ERROR'' = ERROR \<and> ParseLevel ''FATAL'' = FATAL \<and>
   ParseLevel ''OFF'' = OFF \<and>
   ParseLevel ''trace'' = TRACE \<and> ParseLevel ''debug'' = DEBUG \<and>
   ParseLevel ''info'' = INFO \<and> ParseLevel ''warn'' = WARN \<and>
   ParseLevel ''error'' = ERROR \<and> ParseLevel ''fatal'' = FATAL \<and>
   (s \<notin> {''TRACE'', ''DEBUG'', ''INFO'', ''WARN'', ''ERROR'', ''FATAL'', ''OFF'',
          ''trace'', ''debug'', ''info'', ''warn'', ''error'', ''fatal''}
      \<longrightarrow> ParseLevel s = INFO)"
  by (simp add: ParseLevel_def levelValues_def)

text \<open>Lower-case \<^verbatim>\<open>off\<close>, a mixed-case name, other text and the empty string.\<close>

theorem ParseLevel_names_witness:
  "ParseLevel ''off'' = INFO \<and> ParseLevel ''Warn'' = INFO \<and>
   ParseLevel ''verbose'' = INFO \<and> ParseLevel [] = INFO"
  using ParseLevel_names [of "''off''"] ParseLevel_names [of "''Warn''"]
    ParseLevel_names [of "''verbose''"] ParseLevel_names [of "[]"]
  by simp

text \<open>
  Claim C9. For an entry whose level is strictly below the level of a burst filter,
  \<^verbatim>\<open>Decide\<close> returns \<^verbatim>\<open>NEUTRAL\<close>, whatever the token count and the other fields
  of the filter are; the same holds for the filter seen through the interface.
\<close>

theorem BurstFilter_below_level_neutral:
  "Level entry < BurstFilter.level f \<Longrightarrow>
     fst (BurstFilter_Decide f entry now) = NEUTRAL \<and>
     fst (Decide (FBurst f) entry now) = NEUTRAL"
  by (simp add: BurstFilter_Decide_def)

theorem BurstFilter_below_level_neutral_witness:
  "fst (BurstFilter_Decide ((NewBurstFilter ERROR 10 100 0)\<lparr>tokens := 57\<rparr>)
         (Entry_zero\<lparr>Level := INFO\<rparr>) 5) = NEUTRAL \<and>
   fst (BurstFilter_Decide ((NewBurstFilter ERROR 10 100 0)\<lparr>tokens := 0\<rparr>)
         (Entry_zero\<lparr>Level := WARN\<rparr>) 5) = NEUTRAL"
  using BurstFilter_below_level_neutral
          [of "Entry_zero\<lparr>Level := INFO\<rparr>" "(NewBurstFilter ERROR 10 100 0)\<lparr>tokens := 57\<rparr>" 5]
        BurstFilter_below_level_neutral
          [of "Entry_zero\<lparr>Level := WARN\<rparr>" "(NewBurstFilter ERROR 10 100 0)\<lparr>tokens := 0\<rparr>" 5]
  by (simp add: NewBurstFilter_def Entry_zero_def Level_defs)

text \<open>
  Claim C4, as the code has it. A call of \<^verbatim>\<open>Decide\<close> with an entry at or above the
  level of the filter sets \<^verbatim>\<open>lastRefill\<close> to the current time, whether the decision
  is \<^verbatim>\<open>onMatch\<close> or \<^verbatim>\<open>onMismatch\<close>. A call with an entry below the level returns
  before the lock is taken and leaves the filter, \<^verbatim>\<open>lastRefill\<close> included, as it was.
\<close>

theorem BurstFilter_lastRefill:
  "(BurstFilter.level f \<le> Level entry \<longrightarrow>
      lastRefill (snd (BurstFilter_Decide f entry now)) = now) \<and>
   (Level entry < BurstFilter.level f \<longrightarrow> snd (BurstFilter_Decide f entry now) = f)"
  by (simp add: BurstFilter_Decide_def Let_def)

text \<open>
  An \<^verbatim>\<open>ERROR\<close> entry five nanoseconds after the filter was made, once with the
  bucket full (\<^verbatim>\<open>onMatch\<close>) and once with it empty (\<^verbatim>\<open>onMismatch\<close>), and an
  \<^verbatim>\<open>INFO\<close> entry.
\<close>

theorem BurstFilter_lastRefill_witness:
  "lastRefill (snd (BurstFilter_Decide (NewBurstFilter ERROR 10 100 0)
      (Entry_zero\<lparr>Level := ERROR\<rparr>) 5)) = 5 \<and>
   lastRefill (snd (BurstFilter_Decide ((NewBurstFilter ERROR 10 100 0)\<lparr>tokens := 0\<rparr>)
      (Entry_zero\<lparr>Level := ERROR\<rparr>) 5)) = 5 \<and>
   snd (BurstFilter_Decide (NewBurstFilter ERROR 10 100 0) (Entry_zero\<lparr>Level := INFO\<rparr>) 5)
     = NewBurstFilter ERROR 10 100 0"
  using BurstFilter_lastRefill
          [of "NewBurstFilter ERROR 10 100 0" "Entry_zero\<lparr>Level := ERROR\<rparr>" 5]
        BurstFilter_lastRefill
          [of "(NewBurstFilter ERROR 10 100 0)\<lparr>tokens := 0\<rparr>" "Entry_zero\<lparr>Level := ERROR\<rparr>" 5]
        BurstFilter_lastRefill
          [of "NewBurstFilter ERROR 10 100 0" "Entry_zero\<lparr>Level := INFO\<rparr>" 5]
  by (simp add: NewBurstFilter_def Entry_zero_def Level_defs)

text \<open>
  The claim as written fails for an entry below the level: a filter made at time 0
  for level \<^verbatim>\<open>ERROR\<close> is asked about an \<^verbatim>\<open>INFO\<close> entry at time 5, and
  \<^verbatim>\<open>lastRefill\<close> is still 0 afterwards.
\<close>

theorem BurstFilter_lastRefill_counterexample:
  "lastRefill (snd (BurstFilter_Decide (NewBurstFilter ERROR 10 100 0)
      (Entry_zero\<lparr>Level := INFO\<rparr>) 5)) = 0 \<and> (0 :: Time) \<noteq> 5"
  by (simp add: BurstFilter_Decide_def NewBurstFilter_def Entry_zero_def Level_defs)

text \<open>
  Claim C5, as the code has it. A filter made by \<^verbatim>\<open>NewBurstFilter\<close> with
  \<^verbatim>\<open>maxBurst\<close> \<open>\<ge> 0\<close> has \<open>0 \<le> tokens \<le> maxBurst\<close>. A call of \<^verbatim>\<open>Decide\<close> keeps
  this, provided that the rate of the filter is not negative and that the clock has
  not gone back since the last refill (\<^verbatim>\<open>time.Now()\<close> carries a monotonic reading).
  The call leaves \<^verbatim>\<open>rate\<close> and \<^verbatim>\<open>maxBurst\<close> as they were and never moves
  \<^verbatim>\<open>lastRefill\<close> back, so the provisos hold again for the next call.
\<close>

theorem BurstFilter_tokens_bounds:
  "(0 \<le> mb \<longrightarrow> tokens_in_range (NewBurstFilter lvl r mb t0)) \<and>
   (tokens_in_range f \<and> 0 \<le> rate f \<and> lastRefill f \<le> now \<longrightarrow>
      tokens_in_range (snd (BurstFilter_Decide f entry now)) \<and>
      rate (snd (BurstFilter_Decide f entry now)) = rate f \<and>
      maxBurst (snd (BurstFilter_Decide f entry now)) = maxBurst f \<and>
      lastRefill f \<le> lastRefill (snd (BurstFilter_Decide f entry now)))"
proof -
  have made: "tokens_in_range (NewBurstFilter lvl r mb t0)" if "0 \<le> mb"
    using that by (simp add: tokens_in_range_def NewBurstFilter_def)
  have kept: "tokens_in_range (snd (BurstFilter_Decide f entry now))"
    if inv: "tokens_in_range f" and r: "0 \<le> rate f" and t: "lastRefill f \<le> now"
  proof -
    have "0 \<le> Duration_Seconds (now - lastRefill f) * rate f"
      using r t by (simp add: Duration_Seconds_def)
    then show ?thesis
      using inv by (auto simp: BurstFilter_Decide_def Let_def tokens_in_range_def)
  qed
  have frame: "rate (snd (BurstFilter_Decide f entry now)) = rate f \<and>
      maxBurst (snd (BurstFilter_Decide f entry now)) = maxBurst f"
    by (simp add: BurstFilter_Decide_def Let_def)
  have clock: "lastRefill f \<le> lastRefill (snd (BurstFilter_Decide f entry now))"
    if "lastRefill f \<le> now"
    using that by (simp add: BurstFilter_Decide_def Let_def)
  show ?thesis
    using made kept frame clock by blast
qed

text \<open>
  A filter with 2.5 tokens per second and a burst of 3: after the first
  \<^verbatim>\<open>ERROR\<close> entry at time 0 it holds 2 tokens, and one more \<^verbatim>\<open>ERROR\<close> entry 0.2
  seconds later leaves 1.5 tokens.
\<close>

theorem BurstFilter_tokens_bounds_witness:
  "tokens_in_range (NewBurstFilter ERROR (5 / 2) 3 0) \<and>
   tokens_in_range (snd (BurstFilter_Decide (NewBurstFilter ERROR (5 / 2) 3 0)
      (Entry_zero\<lparr>Level := ERROR\<rparr>) 0)) \<and>
   tokens_in_range (snd (BurstFilter_Decide ((NewBurstFilter ERROR (5 / 2) 3 0)\<lparr>tokens := 2\<rparr>)
      (Entry_zero\<lparr>Level := ERROR\<rparr>) 200000000)) \<and>
   tokens (snd (BurstFilter_Decide ((NewBurstFilter ERROR (5 / 2) 3 0)\<lparr>tokens := 2\<rparr>)
      (Entry_zero\<lparr>Level := ERROR\<rparr>) 200000000)) = 3 / 2"
proof -
  have t: "tokens (snd (BurstFilter_Decide ((NewBurstFilter ERROR (5 / 2) 3 0)\<lparr>tokens := 2\<rparr>)
      (Entry_zero\<lparr>Level := ERROR\<rparr>) 200000000)) = 3 / 2"
    by (simp add: BurstFilter_Decide_def NewBurstFilter_def Entry_zero_def Level_defs
        Duration_Seconds_def Let_def)
  have inv2: "tokens_in_range ((NewBurstFilter ERROR (5 / 2) 3 0)\<lparr>tokens := 2\<rparr>)"
    by (simp add: tokens_in_range_def NewBurstFilter_def)
  have r2: "0 \<le> rate ((NewBurstFilter ERROR (5 / 2) 3 0)\<lparr>tokens := 2\<rparr>)"
    by (simp add: NewBurstFilter_def)
  have c2: "lastRefill ((NewBurstFilter ERROR (5 / 2) 3 0)\<lparr>tokens := 2\<rparr>) \<le> 200000000"
    by (simp add: NewBurstFilter_def)
  have r1: "0 \<le> rate (NewBurstFilter ERROR (5 / 2) 3 0)"
    by (simp add: NewBurstFilter_def)
  have c1: "lastRefill (NewBurstFilter ERROR (5 / 2) 3 0) \<le> 0"
    by (simp add: NewBurstFilter_def)
  note T1 = BurstFilter_tokens_bounds
              [of 3 ERROR "5 / 2" 0 "NewBurstFilter ERROR (5 / 2) 3 0" 0
                 "Entry_zero\<lparr>Level := ERROR\<rparr>"]
  note T2 = BurstFilter_tokens_bounds
              [of 3 ERROR "5 / 2" 0 "(NewBurstFilter ERROR (5 / 2) 3 0)\<lparr>tokens := 2\<rparr>"
                 200000000 "Entry_zero\<lparr>Level := ERROR\<rparr>"]
  show ?thesis
    using T1 T2 t inv2 r2 c2 r1 c1 by simp
qed

text \<open>
  The claim as written fails for a negative rate, which \<^verbatim>\<open>NewBurstFilter\<close> accepts:
  with rate \<open>-1\<close> and a burst of 10, an \<^verbatim>\<open>ERROR\<close> entry 20 seconds after the filter
  was made leaves \<open>10 - 20 = -10\<close> tokens.
\<close>

theorem BurstFilter_tokens_bounds_counterexample:
  "tokens (snd (BurstFilter_Decide (NewBurstFilter ERROR (- 1) 10 0)
      (Entry_zero\<lparr>Level := ERROR\<rparr>) 20000000000)) = - 10 \<and>
   \<not> tokens_in_range (snd (BurstFilter_Decide (NewBurstFilter ERROR (- 1) 10 0)
      (Entry_zero\<lparr>Level := ERROR\<rparr>) 20000000000))"
  by (simp add: BurstFilter_Decide_def NewBurstFilter_def Entry_zero_def Level_defs
      Duration_Seconds_def Let_def tokens_in_range_def)

text \<open>The results of the two loops of the composite filter.\<close>

lemma Decide_ALL_result:
  "fst (Decide_ALL fs entry now) =
     (if \<exists>f\<in>set fs. fst (Decide f entry now) = DENY then DENY else ACCEPT)"
  by (induction fs) (auto simp: FilterResult_distinct split: prod.splits)

lemma Decide_ANY_result:
  "fst (Decide_ANY fs entry now) =
     (if \<exists>f\<in>set fs. fst (Decide f entry now) = ACCEPT then ACCEPT else DENY)"
  by (induction fs) (auto simp: FilterResult_distinct split: prod.splits)

text \<open>
  Claim C3, as the code has it. A composite filter with at least one child: in mode
  \<^verbatim>\<open>ALL\<close> it returns \<^verbatim>\<open>DENY\<close> if a child returns \<^verbatim>\<open>DENY\<close> and \<^verbatim>\<open>ACCEPT\<close> if no
  child does; in mode \<^verbatim>\<open>ANY\<close> it returns \<^verbatim>\<open>ACCEPT\<close> if a child returns
  \<^verbatim>\<open>ACCEPT\<close> and \<^verbatim>\<open>DENY\<close> if no child does. A composite filter without children
  returns \<^verbatim>\<open>NEUTRAL\<close> in every mode. (What a child returns is its decision on the
  entry in its state before the call, at the clock reading of the call.)
\<close>

theorem CompositeFilter_Decide_children:
  "(fs = [] \<longrightarrow> fst (Decide (FComposite fs m) entry now) = NEUTRAL) \<and>
   (fs \<noteq> [] \<longrightarrow>
      ((\<exists>f\<in>set fs. fst (Decide f entry now) = DENY)
         \<longrightarrow> fst (Decide (FComposite fs ALL_mode) entry now) = DENY) \<and>
      ((\<forall>f\<in>set fs. fst (Decide f entry now) \<noteq> DENY)
         \<longrightarrow> fst (Decide (FComposite fs ALL_mode) entry now) = ACCEPT) \<and>
      ((\<exists>f\<in>set fs. fst (Decide f entry now) = ACCEPT)
         \<longrightarrow> fst (Decide (FComposite fs ANY_mode) entry now) = ACCEPT) \<and>
      ((\<forall>f\<in>set fs. fst (Decide f entry now) \<noteq> ACCEPT)
         \<longrightarrow> fst (Decide (FComposite fs ANY_mode) entry now) = DENY))"
proof -
  have all: "fst (Decide (FComposite fs ALL_mode) entry now) = fst (Decide_ALL fs entry now)"
    if "fs \<noteq> []"
    using that by (simp split: prod.splits)
  have any: "fst (Decide (FComposite fs ANY_mode) entry now) = fst (Decide_ANY fs entry now)"
    if "fs \<noteq> []"
    using that CompositeMode_distinct by (simp split: prod.splits)
  have empty: "fst (Decide (FComposite [] m) entry now) = NEUTRAL"
    by simp
  show ?thesis
    using empty all any
    by (auto simp add: Decide_ALL_result Decide_ANY_result simp del: Decide.simps)
qed

text \<open>
  An accepting child beside a denying one, a single marker filter that is neutral on
  the entry, and no child at all.
\<close>

theorem CompositeFilter_Decide_children_witness:
  "fst (Decide (FComposite [FAcceptAll, FDenyAll] ALL_mode) Entry_zero 0) = DENY \<and>
   fst (Decide (FComposite [FAcceptAll, FDenyAll] ANY_mode) Entry_zero 0) = ACCEPT \<and>
   fst (Decide (FComposite [FMarker (NewMarkerFilter ''SQL'')] ALL_mode) Entry_zero 0)
     = ACCEPT \<and>
   fst (Decide (FComposite [FMarker (NewMarkerFilter ''SQL'')] ANY_mode) Entry_zero 0)
     = DENY \<and>
   fst (Decide (FComposite [] ANY_mode) Entry_zero 0) = NEUTRAL"
proof -
  have d: "\<exists>f\<in>set [FAcceptAll, FDenyAll]. fst (Decide f Entry_zero 0) = DENY"
    by simp
  have a: "\<exists>f\<in>set [FAcceptAll, FDenyAll]. fst (Decide f Entry_zero 0) = ACCEPT"
    by simp
  have n: "fst (Decide (FMarker (NewMarkerFilter ''SQL'')) Entry_zero 0) = NEUTRAL"
    by (simp add: MarkerFilter_Decide_def NewMarkerFilter_def EqualFold_def Entry_zero_def)
  have nd: "\<forall>f\<in>set [FMarker (NewMarkerFilter ''SQL'')]. fst (Decide f Entry_zero 0) \<noteq> DENY"
    using n by (simp add: FilterResult_distinct)
  have na: "\<forall>f\<in>set [FMarker (NewMarkerFilter ''SQL'')]. fst (Decide f Entry_zero 0) \<noteq> ACCEPT"
    using n by (simp add: FilterResult_distinct)
  note T1 = CompositeFilter_Decide_children [of "[FAcceptAll, FDenyAll]" ALL_mode Entry_zero 0]
  note T2 = CompositeFilter_Decide_children
              [of "[FMarker (NewMarkerFilter ''SQL'')]" ALL_mode Entry_zero 0]
  note T3 = CompositeFilter_Decide_children [of "[]" ANY_mode Entry_zero 0]
  show ?thesis
    using T1 T2 T3 d a nd na by blast
qed

text \<open>
  The claim as written fails for a composite filter without children: no child
  returns \<^verbatim>\<open>DENY\<close>, so the claim asks for \<^verbatim>\<open>ACCEPT\<close> in mode \<^verbatim>\<open>ALL\<close>, and no child
  returns \<^verbatim>\<open>ACCEPT\<close>, so it asks for \<^verbatim>\<open>DENY\<close> in mode \<^verbatim>\<open>ANY\<close>; the code returns
  \<^verbatim>\<open>NEUTRAL\<close> in both.
\<close>

theorem CompositeFilter_Decide_children_counterexample:
  "fst (Decide (FComposite [] ALL_mode) Entry_zero 0) = NEUTRAL \<and> NEUTRAL \<noteq> ACCEPT \<and>
   fst (Decide (FComposite [] ANY_mode) Entry_zero 0) = NEUTRAL \<and> NEUTRAL \<noteq> DENY"
  by (simp add: FilterResult_distinct)

section \<open>Properties of the logger\<close>

text \<open>
  Claim C7. A call of \<^verbatim>\<open>Logger.log\<close> with a level strictly below the level of the
  logger is not enabled and returns at once: it takes no step (the MDC is not cloned,
  no entry is built, no appender's \<^verbatim>\<open>Append\<close> is called) and the store of the
  appenders is as before.
\<close>

theorem log_below_level:
  "lvl < Logger.level l \<Longrightarrow>
     \<not> IsEnabled l lvl \<and> log l lvl mark message callsite now w = ([], w)"
  by (simp add: log_def IsEnabled_def GetLevel_def)

text \<open>
  A logger at its initial level \<^verbatim>\<open>INFO\<close> with one appender that records the
  entries it is given: a \<^verbatim>\<open>DEBUG\<close> call leaves the record empty.
\<close>

theorem log_below_level_witness:
  "log (AddAppender (NewLogger ''app'')
          \<lparr>Name = ''spy'', Append = (\<lambda>entry w. (None, w @ [entry])),
           Close = (\<lambda>w. (None, w))\<rparr>)
      DEBUG [] ''dropped'' CallerInfo_zero 0 ([] :: Entry list) = ([], [])"
  using log_below_level
          [of DEBUG
              "AddAppender (NewLogger ''app'')
                 \<lparr>Name = ''spy'', Append = (\<lambda>entry w. (None, w @ [entry])),
                  Close = (\<lambda>w. (None, w))\<rparr>"
              "[]" "''dropped''" CallerInfo_zero 0 "[] :: Entry list"]
  by (simp add: AddAppender_def NewLogger_def Level_defs)

section \<open>Properties of the asynchronous appender\<close>

lemma worker_calls: "fst (worker d q w) = map Delegate_Append q"
  by (induction q arbitrary: w) (simp_all add: case_prod_beta)

lemma Close_repeatedly_done:
  "onceDone a \<Longrightarrow> Close_repeatedly n a w = Inr (replicate n None, a, w)"
  by (induction n) (auto simp: AsyncAppender_Close_def)

text \<open>
  Claim C6. On an asynchronous appender that has not been closed, the first call of
  \<^verbatim>\<open>Close\<close> does not panic; it applies the delegate's \<^verbatim>\<open>Close\<close> once, to the
  store \<open>drained\<close> that the worker leaves after the queued entries, and returns
  that call's error \<open>err\<close> and store \<open>w1\<close>. \<open>n + 1\<close> calls in a row return
  \<open>err\<close> and then \<^verbatim>\<open>nil\<close> \<open>n\<close> times, and end with the appender and the
  delegate's store of the first call: a later call, on any store, changes nothing
  and calls nothing. The history of calls to the delegate holds \<^verbatim>\<open>Close\<close>
  exactly once.
\<close>

theorem AsyncAppender_Close_once:
  assumes "\<not> onceDone a" and "\<not> chanClosed a" and "Delegate_Close \<notin> set (calls a)"
  shows
    "let drained = snd (worker (delegate a) (msgChan a) w);
         err = fst (Close (delegate a) drained);
         w1 = snd (Close (delegate a) drained);
         a1 = a\<lparr>msgChan := [], chanClosed := True, onceDone := True,
                calls := calls a @ map Delegate_Append (msgChan a) @ [Delegate_Close]\<rparr>
     in AsyncAppender_Close a w = Inr (err, a1, w1) \<and>
        Close_repeatedly (Suc n) a w = Inr (err # replicate n None, a1, w1) \<and>
        (\<forall>w'. AsyncAppender_Close a1 w' = Inr (None, a1, w')) \<and>
        length (filter (\<lambda>c. c = Delegate_Close) (calls a1)) = 1"
proof -
  define drained where "drained = snd (worker (delegate a) (msgChan a) w)"
  define err where "err = fst (Close (delegate a) drained)"
  define w1 where "w1 = snd (Close (delegate a) drained)"
  define a1 where "a1 = a\<lparr>msgChan := [], chanClosed := True, onceDone := True,
                     calls := calls a @ map Delegate_Append (msgChan a) @ [Delegate_Close]\<rparr>"
  have wk: "worker (delegate a) (msgChan a) w = (map Delegate_Append (msgChan a), drained)"
    using worker_calls [of "delegate a" "msgChan a" w]
    by (simp add: drained_def prod_eq_iff)
  have cl: "Close (delegate a) drained = (err, w1)"
    by (simp add: err_def w1_def)
  have first: "AsyncAppender_Close a w = Inr (err, a1, w1)"
    using assms wk cl by (simp add: AsyncAppender_Close_def a1_def)
  have done1: "onceDone a1"
    by (simp add: a1_def)
  have rest: "Close_repeatedly n a1 w1 = Inr (replicate n None, a1, w1)"
    using done1 by (rule Close_repeatedly_done)
  have again: "AsyncAppender_Close a1 w' = Inr (None, a1, w')" for w'
    using done1 by (simp add: AsyncAppender_Close_def)
  have "filter (\<lambda>c. c = Delegate_Close) (calls a) = []"
    using assms(3) by (auto simp: filter_empty_conv)
  then have one: "length (filter (\<lambda>c. c = Delegate_Close) (calls a1)) = 1"
    by (simp add: a1_def filter_empty_conv image_iff)
  have "AsyncAppender_Close a w = Inr (err, a1, w1) \<and>
        Close_repeatedly (Suc n) a w = Inr (err # replicate n None, a1, w1) \<and>
        (\<forall>w'. AsyncAppender_Close a1 w' = Inr (None, a1, w')) \<and>
        length (filter (\<lambda>c. c = Delegate_Close) (calls a1)) = 1"
    using first rest again one by simp
  then show ?thesis
    unfolding Let_def drained_def [symmetric] err_def [symmetric] w1_def [symmetric]
      a1_def [symmetric] .
qed

text \<open>
  A new appender with one entry queued, over a delegate whose store is the entries
  it was given and the number of times it was closed, and whose \<^verbatim>\<open>Close\<close> fails:
  after three calls of \<^verbatim>\<open>Close\<close> the delegate holds the entry and was closed once.
\<close>

theorem AsyncAppender_Close_once_witness:
  "Close_repeatedly 3
     ((NewAsyncAppender
        \<lparr>Name = ''spy'',
         Append = (\<lambda>entry (es, closes). (None, (es @ [entry], closes))),
         Close = (\<lambda>(es, closes). (Some (Errno ''disk full''), (es, Suc closes)))\<rparr> 0)
        \<lparr>msgChan := [Entry_zero]\<rparr>)
     ([] :: Entry list, 0 :: nat)
   = Inr ([Some (Errno ''disk full''), None, None],
          (NewAsyncAppender
            \<lparr>Name = ''spy'',
             Append = (\<lambda>entry (es, closes). (None, (es @ [entry], closes))),
             Close = (\<lambda>(es, closes). (Some (Errno ''disk full''), (es, Suc closes)))\<rparr> 0)
            \<lparr>msgChan := [], chanClosed := True, onceDone := True,
             calls := [Delegate_Append Entry_zero, Delegate_Close]\<rparr>,
          ([Entry_zero], 1))"
proof -
  let ?spy = "\<lparr>Name = ''spy'',
         Append = (\<lambda>entry (es, closes). (None, (es @ [entry], closes))),
         Close = (\<lambda>(es :: Entry list, closes :: nat). (Some (Errno ''disk full''), (es, Suc closes)))\<rparr>"
  let ?queued = "(NewAsyncAppender ?spy 0)\<lparr>msgChan := [Entry_zero]\<rparr>"
  have fresh: "\<not> onceDone ?queued" "\<not> chanClosed ?queued"
      "Delegate_Close \<notin> set (calls ?queued)"
    by (simp_all add: NewAsyncAppender_def)
  show ?thesis
    using AsyncAppender_Close_once [OF fresh, of "([], 0)" 2]
    by (simp add: Let_def NewAsyncAppender_def eval_nat_numeral)
qed

section \<open>Properties of the rolling policies and the rolling file appender\<close>

text \<open>
  Claim C8. The hour that \<^verbatim>\<open>NewCronBasedPolicy\<close> takes from a schedule \<open>s\<close>: it
  is 4 when \<open>s\<close> has fewer than three fields. When \<open>s\<close> has three or more fields
  and \<^verbatim>\<open>Sscanf\<close> reads no number from the third, the hour is 0, not 4: the error
  of \<^verbatim>\<open>Sscanf\<close> is dropped and \<^verbatim>\<open>h\<close> keeps its zero value. Otherwise it is the
  number read.
\<close>

theorem parseCronHour_cases:
  "(length (strings_Fields s) < 3 \<longrightarrow>
      parseCronHour s = 4 \<and> hour (NewCronBasedPolicy s now) = 4) \<and>
   (3 \<le> length (strings_Fields s) \<and> Sscanf_d (strings_Fields s ! 2) = None \<longrightarrow>
      parseCronHour s = 0 \<and> hour (NewCronBasedPolicy s now) = 0) \<and>
   (3 \<le> length (strings_Fields s) \<and> Sscanf_d (strings_Fields s ! 2) = Some h \<longrightarrow>
      parseCronHour s = h \<and> hour (NewCronBasedPolicy s now) = h)"
  by (simp add: parseCronHour_def NewCronBasedPolicy_def Let_def)

lemmas scan_eval =
  strings_Fields_def isSpace_def Sscanf_d_def isDigit_def decimal_value_def digit_value_def

text \<open>
  The schedule \<^verbatim>\<open>0 0 abc * * ?\<close>, whose hour field is not a number, gets the
  hour 0; a schedule of two fields gets 4; \<^verbatim>\<open>0 0 23 * * ?\<close> gets 23.
\<close>

theorem parseCronHour_cases_witness:
  "strings_Fields ''0 0 abc * * ?'' = [''0'', ''0'', ''abc'', ''*'', ''*'', ''?''] \<and>
   Sscanf_d ''abc'' = None \<and>
   parseCronHour ''0 0 abc * * ?'' = 0 \<and>
   hour (NewCronBasedPolicy ''0 0 abc * * ?'' 0) = 0 \<and>
   parseCronHour ''0 0'' = 4 \<and>
   parseCronHour ''0 0 23 * * ?'' = 23"
proof -
  have f1: "strings_Fields ''0 0 abc * * ?'' = [''0'', ''0'', ''abc'', ''*'', ''*'', ''?'']"
    by (simp add: scan_eval)
  have s1: "Sscanf_d ''abc'' = None"
    by (simp add: scan_eval)
  have f2: "strings_Fields ''0 0'' = [''0'', ''0'']"
    by (simp add: scan_eval)
  have f3: "strings_Fields ''0 0 23 * * ?'' = [''0'', ''0'', ''23'', ''*'', ''*'', ''?'']"
    by (simp add: scan_eval)
  have s3: "Sscanf_d ''23'' = Some 23"
    by (simp add: scan_eval)
  show ?thesis
    using parseCronHour_cases [of "''0 0 abc * * ?''" 0 0]
      parseCronHour_cases [of "''0 0''" 0 0]
      parseCronHour_cases [of "''0 0 23 * * ?''" 0 23]
      f1 s1 f2 f3 s3
    by simp
qed

text \<open>
  Claim C1. When neither \<^verbatim>\<open>maxBackups\<close> nor \<^verbatim>\<open>totalMaxSize\<close> is positive,
  \<^verbatim>\<open>cleanup\<close> returns at its first test and removes nothing, whatever
  \<^verbatim>\<open>maxAge\<close> is: a backup older than \<^verbatim>\<open>now - maxAge\<close> stays.
\<close>

theorem cleanup_without_count_or_size:
  "maxBackups r \<le> 0 \<Longrightarrow> totalMaxSize r \<le> 0 \<Longrightarrow> cleanup r os = os"
  by (simp add: cleanup_def)

lemmas cleanup_eval =
  cleanup_def os_ReadDir_def filepath_Base_def filepath_Dir_def filepath_Clean_def
  isPathSeparator_def sort_by_modTime_def filepath_Join_def os_Remove_def Let_def
  WithMaxAge_def WithMaxBackups_def NewRollingFileAppender_def reliable_os_def
  regular_file_def time_Hour_def

text \<open>
  With \<^verbatim>\<open>WithMaxBackups(0)\<close> and a \<^verbatim>\<open>maxAge\<close> of seven days, the backup
  \<^verbatim>\<open>app.1\<close> of the log file \<^verbatim>\<open>app\<close>, last modified thirty days ago, is still
  in the directory after \<^verbatim>\<open>cleanup\<close>. With a \<^verbatim>\<open>maxBackups\<close> of 7, which one
  backup does not exceed, the same call removes it: past the first test the removal
  by age does not depend on the count.
\<close>

theorem cleanup_without_count_or_size_witness:
  "let r = WithMaxAge (WithMaxBackups (NewRollingFileAppender Message ''app'') 0)
             (7 * 24 * time_Hour);
       os = reliable_os
              [regular_file ''app'' (30 * 24 * time_Hour) 10, regular_file ''app.1'' 0 10]
              (30 * 24 * time_Hour)
   in 0 < maxAge r \<and>
      fi_modTime (regular_file ''app.1'' 0 10) < clock os - maxAge r \<and>
      regular_file ''app.1'' 0 10 \<in> set (dirents (cleanup r os)) \<and>
      map fi_name (dirents (cleanup (WithMaxBackups r 7) os)) = [''app'']"
proof -
  let ?app = "WithMaxAge (WithMaxBackups (NewRollingFileAppender Message ''app'') 0)
             (7 * 24 * time_Hour)"
  let ?sys = "reliable_os
              [regular_file ''app'' (30 * 24 * time_Hour) 10, regular_file ''app.1'' 0 10]
              (30 * 24 * time_Hour)"
  have count: "maxBackups ?app \<le> 0"
    by (simp add: WithMaxAge_def WithMaxBackups_def NewRollingFileAppender_def)
  have bytes: "totalMaxSize ?app \<le> 0"
    by (simp add: WithMaxAge_def WithMaxBackups_def NewRollingFileAppender_def)
  have same: "cleanup ?app ?sys = ?sys"
    using count bytes by (rule cleanup_without_count_or_size)
  have age: "0 < maxAge ?app \<and>
      fi_modTime (regular_file ''app.1'' 0 10) < clock ?sys - maxAge ?app"
    by (simp add: cleanup_eval)
  have kept: "regular_file ''app.1'' 0 10 \<in> set (dirents (cleanup ?app ?sys))"
    unfolding same by (simp add: reliable_os_def)
  have removed: "map fi_name (dirents (cleanup (WithMaxBackups ?app 7) ?sys)) = [''app'']"
    by (simp add: cleanup_eval)
  show ?thesis
    using age kept removed by (simp add: Let_def)
qed






















end
